theory Spec2Isabelle
  imports Main "HOL-Library.AList"
begin

section \<open>StencilConfigManager (src/lib/StencilConfigManager.js)\<close>

text \<open>
  A shallow embedding of the class \<^verbatim>\<open>StencilConfigManager\<close>. The injected capabilities
  (\<^verbatim>\<open>fs\<close>, \<^verbatim>\<open>os\<close>, \<^verbatim>\<open>process.env\<close>, the logger) are an explicit state that every
  method takes and returns; a thrown exception is the \<open>Inl\<close> branch of the result, paired
  with the state reached when it was thrown, since the writes made before it persist.
\<close>

subsection \<open>JavaScript values\<close>

text \<open>
  The values a configuration holds: strings, booleans, nested objects and \<^verbatim>\<open>null\<close>.
  An object is the list of its own properties in insertion order. \<^verbatim>\<open>undefined\<close> (a
  property that is absent, an argument that was not passed) is \<open>None\<close> of an option.
\<close>

datatype jsval = JNull | JBool bool | JStr string | JObj "(string \<times> jsval) list"

type_synonym config = "(string \<times> jsval) list"

text \<open>Truthiness, as \<^verbatim>\<open>!v\<close>, \<^verbatim>\<open>a || b\<close> and \<^verbatim>\<open>if (v)\<close> test it.\<close>

fun truthy :: "jsval option \<Rightarrow> bool" where
  "truthy None = False"
| "truthy (Some JNull) = False"
| "truthy (Some (JBool b)) = b"
| "truthy (Some (JStr s)) = (s \<noteq> [])"
| "truthy (Some (JObj ps)) = True"

text \<open>The string a template literal \<^verbatim>\<open>`${v}`\<close> inserts for a value.\<close>

fun to_string :: "jsval \<Rightarrow> string" where
  "to_string JNull = ''null''"
| "to_string (JBool b) = (if b then ''true'' else ''false'')"
| "to_string (JStr s) = s"
| "to_string (JObj ps) = ''[object Object]''"

text \<open>\<^verbatim>\<open>`${value || ''}`\<close>\<close>

definition or_empty :: "jsval option \<Rightarrow> string" where
  "or_empty value = (case value of None \<Rightarrow> [] | Some v \<Rightarrow> if truthy (Some v) then to_string v else [])"

text \<open>
  \<^verbatim>\<open>obj.k\<close> reads an own property, and \<open>set_prop\<close> defines one: a new key goes to the end
  of the list, an old one keeps its place. Keys that are array indices, which JavaScript
  orders before the others, do not occur in the configurations treated here.
\<close>

definition get_prop :: "config \<Rightarrow> string \<Rightarrow> jsval option" where
  "get_prop obj k = map_of obj k"

definition set_prop :: "config \<Rightarrow> string \<Rightarrow> jsval \<Rightarrow> config" where
  "set_prop obj k v = AList.update k v obj"

text \<open>
  The assignment \<^verbatim>\<open>obj[k] = v\<close> with a computed key, on an object that started as
  \<^verbatim>\<open>{}\<close>. For the key \<^verbatim>\<open>__proto__\<close> it calls the setter inherited from
  \<^verbatim>\<open>Object.prototype\<close>, which changes the prototype at most and defines no own property;
  for every other key it defines the property.
\<close>

definition assign_prop :: "config \<Rightarrow> string \<Rightarrow> jsval \<Rightarrow> config" where
  "assign_prop obj k v = (if k = ''__proto__'' then obj else set_prop obj k v)"

text \<open>\<^verbatim>\<open>{ ...a, ...b }\<close>: the own properties of \<open>a\<close>, then those of \<open>b\<close>, defined in order.\<close>

definition spread :: "config \<Rightarrow> config \<Rightarrow> config" where
  "spread a b = foldl (\<lambda>acc (k, v). set_prop acc k v) [] (a @ b)"

subsection \<open>String operations\<close>

definition starts_with :: "string \<Rightarrow> string \<Rightarrow> bool" where
  "starts_with p s = (take (length p) s = p)"

text \<open>
  \<^verbatim>\<open>s.split(sep)\<close>: the pieces between the successive leftmost occurrences of \<open>sep\<close>;
  \<open>cur\<close> is the piece being read. An empty separator splits into single characters.
\<close>

function split_scan :: "string \<Rightarrow> string \<Rightarrow> string \<Rightarrow> string list" where
  "split_scan sep cur [] = [cur]"
| "split_scan sep cur (c # cs) =
     (if sep \<noteq> [] \<and> starts_with sep (c # cs)
      then cur # split_scan sep [] (drop (length sep) (c # cs))
      else split_scan sep (cur @ [c]) cs)"
  by pat_completeness auto
termination
  by (relation "measure (\<lambda>(sep, cur, s). length s)") auto

definition split_js :: "string \<Rightarrow> string \<Rightarrow> string list" where
  "split_js sep s = (if sep = [] then map (\<lambda>c. [c]) s else split_scan sep [] s)"

text \<open>\<^verbatim>\<open>xs.join(sep)\<close>\<close>

fun join_js :: "string \<Rightarrow> string list \<Rightarrow> string" where
  "join_js sep [] = []"
| "join_js sep [x] = x"
| "join_js sep (x # y # ys) = x @ sep @ join_js sep (y # ys)"

text \<open>\<^verbatim>\<open>xs.indexOf(x)\<close>, \<open>None\<close> for -1.\<close>

fun indexOf :: "'a \<Rightarrow> 'a list \<Rightarrow> nat option" where
  "indexOf x [] = None"
| "indexOf x (y # ys) = (if y = x then Some 0 else map_option Suc (indexOf x ys))"

subsection \<open>The pattern \<^verbatim>\<open>(?<!#\\s*)KEY(?==)\<close>\<close>

text \<open>
  The source interpolates \<open>key\<close> into a regular expression without escaping it. For a key
  of word characters (letters, digits, underscore), which is what \<^verbatim>\<open>save\<close> passes, the
  pattern is the literal key: a line matches when \<open>key\<close> occurs at a position where it is
  followed by \<^verbatim>\<open>=\<close> and is not preceded by a \<^verbatim>\<open>#\<close> and a run of white space.
  Characters are the code units below 256, where \<^verbatim>\<open>\\s\<close> is tab, line feed, vertical
  tab, form feed, carriage return, space and no-break space.
\<close>

definition plain_key :: "string \<Rightarrow> bool" where
  "plain_key key = (\<forall>c \<in> set key.
     c \<in> set ''abcdefghijklmnopqrstuvwxyzABCDEFGHIJKLMNOPQRSTUVWXYZ0123456789_'')"

definition is_space :: "char \<Rightarrow> bool" where
  "is_space c = (c \<in> set [CHR 0x09, CHR 0x0A, CHR 0x0B, CHR 0x0C, CHR 0x0D, CHR 0x20, CHR 0xA0])"

text \<open>The lookbehind \<^verbatim>\<open>#\\s*\<close> matches at the end of \<open>pre\<close>.\<close>

definition hash_behind :: "string \<Rightarrow> bool" where
  "hash_behind pre = (case dropWhile is_space (rev pre) of [] \<Rightarrow> False | c # cs \<Rightarrow> c = CHR ''#'')"

text \<open>The search for a match position: \<open>pre\<close> is the part of the line already passed.\<close>

fun key_search :: "string \<Rightarrow> string \<Rightarrow> string \<Rightarrow> bool" where
  "key_search key pre [] = (\<not> hash_behind pre \<and> starts_with (key @ ''='') [])"
| "key_search key pre (c # cs) =
     ((\<not> hash_behind pre \<and> starts_with (key @ ''='') (c # cs)) \<or> key_search key (pre @ [c]) cs)"

definition line_matches :: "string \<Rightarrow> string \<Rightarrow> bool" where
  "line_matches key line = key_search key [] line"

subsection \<open>The injected capabilities\<close>

datatype error = TypeError | IOFailure | ParseFailure | OutdatedConfig | Uninitialized

datatype logmsg = DeprecatedDetected | DeprecatedReplaced | ApiHostFallback

text \<open>
  \<open>files\<close> is the content of every existing file; a write to a path in \<open>unwritable\<close>
  fails; \<open>env\<close> is \<^verbatim>\<open>process.env\<close>; \<open>log\<close> is what the logger has received.
\<close>

record world =
  files :: "string \<rightharpoonup> string"
  unwritable :: "string set"
  env :: "string \<rightharpoonup> string"
  log :: "logmsg list"

text \<open>
  The functions of Node's \<^verbatim>\<open>fs\<close> that the class calls. A path is \<open>None\<close> when the
  caller passed \<^verbatim>\<open>undefined\<close>: \<^verbatim>\<open>existsSync\<close> answers false for it, every other function
  throws a TypeError.
\<close>

definition existsSync :: "string option \<Rightarrow> world \<Rightarrow> bool" where
  "existsSync path w = (case path of None \<Rightarrow> False | Some p \<Rightarrow> files w p \<noteq> None)"

definition openSync_a :: "string option \<Rightarrow> world \<Rightarrow> (error + unit) \<times> world" where
  "openSync_a path w = (case path of
       None \<Rightarrow> (Inl TypeError, w)
     | Some p \<Rightarrow>
         if p \<in> unwritable w then (Inl IOFailure, w)
         else (Inr (), w\<lparr>files := (files w)(p \<mapsto> (case files w p of None \<Rightarrow> [] | Some c \<Rightarrow> c))\<rparr>))"

definition readFileSync :: "string option \<Rightarrow> world \<Rightarrow> error + string" where
  "readFileSync path w = (case path of
       None \<Rightarrow> Inl TypeError
     | Some p \<Rightarrow> (case files w p of None \<Rightarrow> Inl IOFailure | Some c \<Rightarrow> Inr c))"

definition writeFile :: "string option \<Rightarrow> string \<Rightarrow> world \<Rightarrow> (error + unit) \<times> world" where
  "writeFile path content w = (case path of
       None \<Rightarrow> (Inl TypeError, w)
     | Some p \<Rightarrow>
         if p \<in> unwritable w then (Inl IOFailure, w)
         else (Inr (), w\<lparr>files := (files w)(p \<mapsto> content)\<rparr>))"

definition unlink :: "string \<Rightarrow> world \<Rightarrow> (error + unit) \<times> world" where
  "unlink p w = (case files w p of
       None \<Rightarrow> (Inl IOFailure, w)
     | Some c \<Rightarrow> (Inr (), w\<lparr>files := (files w)(p := None)\<rparr>))"

definition logger_log :: "logmsg \<Rightarrow> world \<Rightarrow> world" where
  "logger_log msg w = w\<lparr>log := log w @ [msg]\<rparr>"

subsection \<open>\<^verbatim>\<open>JSON.stringify(obj, null, 2)\<close>\<close>

definition hex_digit :: "nat \<Rightarrow> char" where
  "hex_digit n = ''0123456789abcdef'' ! (n mod 16)"

text \<open>The escape of one character inside a JSON string (\<^verbatim>\<open>QuoteJSONString\<close>).\<close>

definition json_escape :: "char \<Rightarrow> string" where
  "json_escape c =
     (if c = CHR 0x08 then [CHR 0x5C, CHR ''b'']
      else if c = CHR 0x09 then [CHR 0x5C, CHR ''t'']
      else if c = CHR 0x0A then [CHR 0x5C, CHR ''n'']
      else if c = CHR 0x0C then [CHR 0x5C, CHR ''f'']
      else if c = CHR 0x0D then [CHR 0x5C, CHR ''r'']
      else if c = CHR 0x22 then [CHR 0x5C, CHR 0x22]
      else if c = CHR 0x5C then [CHR 0x5C, CHR 0x5C]
      else if (of_char c :: nat) < 32
        then [CHR 0x5C, CHR ''u'', CHR ''0'', CHR ''0'',
              hex_digit (of_char c div 16), hex_digit (of_char c)]
      else [c])"

definition json_quote :: "string \<Rightarrow> string" where
  "json_quote s = [CHR 0x22] @ concat (map json_escape s) @ [CHR 0x22]"

text \<open>\<open>ind\<close> is the indentation of the line on which the value starts.\<close>

fun stringify_val :: "string \<Rightarrow> jsval \<Rightarrow> string" where
  "stringify_val ind JNull = ''null''"
| "stringify_val ind (JBool b) = (if b then ''true'' else ''false'')"
| "stringify_val ind (JStr s) = json_quote s"
| "stringify_val ind (JObj ps) =
     (if ps = [] then ''{}''
      else ''{'' @ [CHR 0x0A] @ (ind @ ''  '')
        @ join_js ('','' @ [CHR 0x0A] @ (ind @ ''  ''))
            (map (\<lambda>(k, v). json_quote k @ '': '' @ stringify_val (ind @ ''  '') v) ps)
        @ [CHR 0x0A] @ ind @ ''}'')"

definition JSON_stringify :: "config \<Rightarrow> string" where
  "JSON_stringify obj = stringify_val [] (JObj obj)"

subsection \<open>The manager\<close>

text \<open>
  What the constructor fixes: the theme directory and \<^verbatim>\<open>os.EOL\<close>. Two parts of the
  repository are not in the source file and are parameters here: the JSON parser behind
  \<^verbatim>\<open>fsUtils.parseJsonFile\<close> (\<open>None\<close> when the text is malformed) and the constant
  \<^verbatim>\<open>API_HOST\<close> of \<^verbatim>\<open>../constants\<close>.
\<close>

record manager =
  themePath :: string
  EOL :: string
  parseJson :: "string \<Rightarrow> config option"
  API_HOST :: string

text \<open>
  \<^verbatim>\<open>path.join(dir, name)\<close> for a directory path that is already normalised, is not
  \<^verbatim>\<open>.\<close> and has no trailing separator, as the default \<^verbatim>\<open>THEME_PATH\<close> (the working
  directory, an absolute path) is: there the join is the concatenation. For other
  directories \<^verbatim>\<open>path.join\<close> normalises the result, which this definition does not; and
  \<open>files\<close> tells files apart by the path as written.
\<close>

definition path_join :: "string \<Rightarrow> string \<Rightarrow> string" where
  "path_join dir name = dir @ ''/'' @ name"

definition oldConfigPath :: "manager \<Rightarrow> string" where
  "oldConfigPath m = path_join (themePath m) ''.stencil''"

definition configPath :: "manager \<Rightarrow> string" where
  "configPath m = path_join (themePath m) ''config.stencil.json''"

definition secretFieldsSet :: "string list" where
  "secretFieldsSet = [''accessToken'', ''githubToken'']"

text \<open>
  Modelled from the spec: \<^verbatim>\<open>fsUtils.parseJsonFile\<close>, of \<^verbatim>\<open>lib/utils/fsUtils.js\<close>, which is
  outside the file embedded here: given a path, it returns the parsed object or fails on
  an unreadable file or malformed JSON.
\<close>

definition parseJsonFile :: "manager \<Rightarrow> string \<Rightarrow> world \<Rightarrow> error + config" where
  "parseJsonFile m p w = (case files w p of
       None \<Rightarrow> Inl IOFailure
     | Some text \<Rightarrow> (case parseJson m text of None \<Rightarrow> Inl ParseFailure | Some obj \<Rightarrow> Inr obj))"

subsection \<open>\<^verbatim>\<open>_setEnvValueToFile\<close>\<close>

text \<open>
  The filter \<^verbatim>\<open>(v) => !v\<close> keeps the strings that are falsy: the empty ones.
\<close>

definition setEnvValueToFile ::
  "manager \<Rightarrow> string \<Rightarrow> jsval option \<Rightarrow> string option \<Rightarrow> world \<Rightarrow> (error + unit) \<times> world" where
  "setEnvValueToFile m key value envFile w =
     (case (if \<not> existsSync envFile w then openSync_a envFile w else (Inr (), w)) of
        (Inl e, w1) \<Rightarrow> (Inl e, w1)
      | (Inr u, w1) \<Rightarrow>
          (case readFileSync envFile w1 of
             Inl e \<Rightarrow> (Inl e, w1)
           | Inr text \<Rightarrow>
               let vars = filter (\<lambda>v. \<not> (v \<noteq> [])) (split_js (EOL m) text);
                   target = find (line_matches key) vars;
                   targetIndex = (case target of None \<Rightarrow> None | Some t \<Rightarrow> indexOf t vars);
                   vars' = (case targetIndex of
                              Some i \<Rightarrow> vars[i := key @ ''='' @ or_empty value]
                            | None \<Rightarrow> vars @ [key @ ''='' @ or_empty value])
               in writeFile envFile (join_js (EOL m) vars') w1))"

subsection \<open>\<^verbatim>\<open>_splitStencilConfig\<close>\<close>

text \<open>The pair is \<^verbatim>\<open>(secretsConfig, generalConfig)\<close>, the accumulator of the \<^verbatim>\<open>reduce\<close>.\<close>

definition splitStencilConfig :: "config \<Rightarrow> config \<times> config" where
  "splitStencilConfig cfg =
     foldl (\<lambda>(secretsConfig, generalConfig) (key, value).
              if key \<in> set secretFieldsSet
              then (assign_prop secretsConfig key value, generalConfig)
              else (secretsConfig, assign_prop generalConfig key value))
       ([], []) cfg"

subsection \<open>\<^verbatim>\<open>save\<close>\<close>

definition save :: "manager \<Rightarrow> config \<Rightarrow> string option \<Rightarrow> world \<Rightarrow> (error + unit) \<times> world" where
  "save m cfg envFile w =
     (let (secretsConfig, generalConfig) = splitStencilConfig cfg in
      case writeFile (Some (configPath m)) (JSON_stringify generalConfig) w of
        (Inl e, w1) \<Rightarrow> (Inl e, w1)
      | (Inr u, w1) \<Rightarrow>
          (case setEnvValueToFile m ''STENCIL_ACCESS_TOKEN''
                  (get_prop secretsConfig ''accessToken'') envFile w1 of
             (Inl e, w2) \<Rightarrow> (Inl e, w2)
           | (Inr u, w2) \<Rightarrow>
               setEnvValueToFile m ''STENCIL_GITHUB_TOKEN''
                 (get_prop secretsConfig ''githubToken'') envFile w2))"

subsection \<open>\<^verbatim>\<open>_getSecretsConfigFromEnvVars\<close>\<close>

text \<open>\<^verbatim>\<open>process.env.X || null\<close>\<close>

definition env_or_null :: "world \<Rightarrow> string \<Rightarrow> jsval" where
  "env_or_null w name = (case env w name of
       None \<Rightarrow> JNull
     | Some s \<Rightarrow> if truthy (Some (JStr s)) then JStr s else JNull)"

definition getSecretsConfigFromEnvVars :: "world \<Rightarrow> config" where
  "getSecretsConfigFromEnvVars w =
     [(''accessToken'', env_or_null w ''STENCIL_ACCESS_TOKEN''),
      (''githubToken'', env_or_null w ''STENCIL_GITHUB_TOKEN'')]"

subsection \<open>\<^verbatim>\<open>_validateStencilConfig\<close>\<close>

definition validateStencilConfig ::
  "manager \<Rightarrow> config \<Rightarrow> bool \<Rightarrow> world \<Rightarrow> (error + config) \<times> world" where
  "validateStencilConfig m cfg ignoreMissingFields w =
     (if \<not> ignoreMissingFields
         \<and> (\<not> truthy (get_prop cfg ''normalStoreUrl'') \<or> \<not> truthy (get_prop cfg ''customLayouts''))
      then (Inl OutdatedConfig, w)
      else if \<not> truthy (get_prop cfg ''apiHost'')
      then (Inr (set_prop cfg ''apiHost'' (JStr (API_HOST m))), logger_log ApiHostFallback w)
      else (Inr cfg, w))"

subsection \<open>\<^verbatim>\<open>_migrateOldConfig\<close>\<close>

text \<open>\<^verbatim>\<open>this.save(config)\<close> passes no \<^verbatim>\<open>envFile\<close>: the parameter is \<^verbatim>\<open>undefined\<close>.\<close>

definition migrateOldConfig :: "manager \<Rightarrow> config \<Rightarrow> world \<Rightarrow> (error + unit) \<times> world" where
  "migrateOldConfig m cfg w =
     (case save m cfg None (logger_log DeprecatedDetected w) of
        (Inl e, w1) \<Rightarrow> (Inl e, w1)
      | (Inr u, w1) \<Rightarrow>
          (case unlink (oldConfigPath m) w1 of
             (Inl e, w2) \<Rightarrow> (Inl e, w2)
           | (Inr u, w2) \<Rightarrow> (Inr (), logger_log DeprecatedReplaced w2)))"

subsection \<open>\<^verbatim>\<open>read\<close>\<close>

text \<open>
  The result \<open>Inr None\<close> is \<^verbatim>\<open>null\<close>. \<open>generalConfig\<close> is \<open>None\<close> for \<^verbatim>\<open>null\<close> and an
  object otherwise; \<^verbatim>\<open>generalConfig || secretsConfig\<close> tests the truthiness of the two
  objects. Spreading \<^verbatim>\<open>null\<close> adds no property.
\<close>

definition read :: "manager \<Rightarrow> bool \<Rightarrow> bool \<Rightarrow> world \<Rightarrow> (error + config option) \<times> world" where
  "read m ignoreFileNotExists ignoreMissingFields w =
     (if existsSync (Some (oldConfigPath m)) w then
        (let parsedConfig = (case parseJsonFile m (oldConfigPath m) w of
                               Inl e \<Rightarrow> [] | Inr obj \<Rightarrow> obj) in
         case migrateOldConfig m parsedConfig w of
           (Inl e, w1) \<Rightarrow> (Inl e, w1)
         | (Inr u, w1) \<Rightarrow>
             (case validateStencilConfig m parsedConfig ignoreMissingFields w1 of
                (Inl e, w2) \<Rightarrow> (Inl e, w2)
              | (Inr c, w2) \<Rightarrow> (Inr (Some c), w2)))
      else
        (case (if existsSync (Some (configPath m)) w
               then map_sum id Some (parseJsonFile m (configPath m) w)
               else Inr None) of
           Inl e \<Rightarrow> (Inl e, w)
         | Inr generalConfig \<Rightarrow>
             (let secretsConfig = getSecretsConfigFromEnvVars w in
              if truthy (map_option JObj generalConfig) \<or> truthy (Some (JObj secretsConfig)) then
                (let parsedConfig =
                       spread (case generalConfig of None \<Rightarrow> [] | Some g \<Rightarrow> g) secretsConfig in
                 case validateStencilConfig m parsedConfig ignoreMissingFields w of
                   (Inl e, w2) \<Rightarrow> (Inl e, w2)
                 | (Inr c, w2) \<Rightarrow> (Inr (Some c), w2))
              else if ignoreFileNotExists then (Inr None, w)
              else (Inl Uninitialized, w))))"

subsection \<open>Concrete managers, states and inputs\<close>

text \<open>
  A manager on a POSIX host (\<^verbatim>\<open>os.EOL\<close> is a line feed) for the theme directory
  \<^verbatim>\<open>/theme\<close>, whose JSON parser knows the texts listed in \<open>parses\<close>.
\<close>

definition posix_manager :: "(string \<times> config) list \<Rightarrow> manager" where
  "posix_manager parses =
     \<lparr>themePath = ''/theme'', EOL = ''\<newline>'', parseJson = map_of parses,
      API_HOST = ''https://api.bigcommerce.com''\<rparr>"

text \<open>No file, every path writable, no environment variable, nothing logged.\<close>

definition empty_world :: world where
  "empty_world = \<lparr>files = Map.empty, unwritable = {}, env = Map.empty, log = []\<rparr>"

text \<open>The legacy file of the migration scenario and the object it parses to.\<close>

definition legacy_text :: string where
  \<open>legacy_text = ''{"normalStoreUrl":"http://x","customLayouts":true,"accessToken":"abc"}''\<close>

definition legacy_config :: config where
  "legacy_config = [(''normalStoreUrl'', JStr ''http://x''), (''customLayouts'', JBool True),
     (''accessToken'', JStr ''abc'')]"

text \<open>The general config file that \<^verbatim>\<open>save\<close> writes for the two non-secret fields of it.\<close>

definition store_config :: config where
  "store_config = [(''normalStoreUrl'', JStr ''http://x''), (''customLayouts'', JBool True)]"

definition migrated_text :: string where
  \<open>migrated_text = ''{\<newline>  "normalStoreUrl": "http://x",\<newline>  "customLayouts": true\<newline>}''\<close>

text \<open>A configuration that validation leaves as it is, with both secret fields.\<close>

definition general_config :: config where
  "general_config = [(''normalStoreUrl'', JStr ''http://x''), (''customLayouts'', JBool True),
     (''apiHost'', JStr ''https://api.example.com'')]"

definition full_config :: config where
  "full_config = general_config @ [(''accessToken'', JStr ''abc''), (''githubToken'', JStr ''gh'')]"

subsection \<open>The upsert as the specification words it\<close>

text \<open>
  The new content of the environment file according to the specification of
  \<^verbatim>\<open>_setEnvValueToFile\<close>: split the content at the line separator, drop the empty lines,
  replace the first line that matches the key or else append, and join. It differs from
  the source in the filter alone.
\<close>

definition setEnvValueToFile_spec :: "string \<Rightarrow> string \<Rightarrow> jsval option \<Rightarrow> string \<Rightarrow> string" where
  "setEnvValueToFile_spec eol key value content =
     (let vars = filter (\<lambda>v. v \<noteq> []) (split_js eol content);
          vars' = (case find (line_matches key) vars of
                     Some t \<Rightarrow> (case indexOf t vars of
                                  Some i \<Rightarrow> vars[i := key @ ''='' @ or_empty value]
                                | None \<Rightarrow> vars @ [key @ ''='' @ or_empty value])
                   | None \<Rightarrow> vars @ [key @ ''='' @ or_empty value])
      in join_js eol vars')"

section \<open>Properties\<close>

lemmas fixture_defs = posix_manager_def empty_world_def configPath_def oldConfigPath_def
  path_join_def

subsection \<open>Lines and the pattern\<close>

lemma line_matches_Nil: "\<not> line_matches key []"
  by (simp add: line_matches_def starts_with_def)

text \<open>The two keys that \<^verbatim>\<open>save\<close> passes are keys of word characters.\<close>

lemma save_keys_plain:
  "plain_key ''STENCIL_ACCESS_TOKEN''" "plain_key ''STENCIL_GITHUB_TOKEN''"
  by (simp_all add: plain_key_def)

text \<open>What the filter keeps are empty strings, and the pattern matches none of them.\<close>

lemma find_empty_lines: "find (line_matches key) (filter (\<lambda>v. v = []) xs) = None"
  by (induction xs) (auto simp: line_matches_Nil)

subsection \<open>The three outcomes of \<^verbatim>\<open>_setEnvValueToFile\<close>\<close>

lemma setEnvValueToFile_writable:
  assumes "p \<notin> unwritable w"
  shows "setEnvValueToFile m key value (Some p) w =
    (Inr (), w\<lparr>files := (files w)(p \<mapsto>
       join_js (EOL m)
         (filter (\<lambda>v. v = []) (split_js (EOL m) (case files w p of None \<Rightarrow> [] | Some c \<Rightarrow> c))
          @ [key @ ''='' @ or_empty value]))\<rparr>)"
  using assms
  by (cases "files w p")
     (simp_all add: setEnvValueToFile_def existsSync_def openSync_a_def readFileSync_def
        writeFile_def find_empty_lines Let_def)

lemma setEnvValueToFile_unwritable:
  assumes "p \<in> unwritable w"
  shows "setEnvValueToFile m key value (Some p) w = (Inl IOFailure, w)"
  using assms
  by (cases "files w p")
     (simp_all add: setEnvValueToFile_def existsSync_def openSync_a_def readFileSync_def
        writeFile_def find_empty_lines Let_def)

lemma setEnvValueToFile_undefined:
  "setEnvValueToFile m key value None w = (Inl TypeError, w)"
  by (simp add: setEnvValueToFile_def existsSync_def openSync_a_def)

subsection \<open>\<^verbatim>\<open>save\<close> without an environment file\<close>

lemma save_undefined:
  "save m cfg None w =
     (if configPath m \<in> unwritable w then (Inl IOFailure, w)
      else (Inl TypeError,
            w\<lparr>files := (files w)(configPath m \<mapsto> JSON_stringify (snd (splitStencilConfig cfg)))\<rparr>))"
  by (simp add: save_def writeFile_def setEnvValueToFile_undefined split: prod.splits)

lemma paths_differ: "oldConfigPath m \<noteq> configPath m"
  by (simp add: oldConfigPath_def configPath_def path_join_def)

subsection \<open>Migration\<close>

text \<open>
  C6. In \<^verbatim>\<open>_migrateOldConfig\<close>, when \<^verbatim>\<open>save\<close> throws, the migration stops with that
  error in the state \<^verbatim>\<open>save\<close> left, and the legacy file is what it was before the
  migration started: it is deleted only after \<^verbatim>\<open>save\<close> has completed.
\<close>

theorem migrate_save_gates_delete:
  assumes "save m cfg None (logger_log DeprecatedDetected w) = (Inl e, w1)"
  shows "migrateOldConfig m cfg w = (Inl e, w1)
    \<and> files w1 (oldConfigPath m) = files w (oldConfigPath m)"
proof -
  have "migrateOldConfig m cfg w = (Inl e, w1)"
    using assms by (simp add: migrateOldConfig_def)
  moreover have "files w1 (oldConfigPath m) = files w (oldConfigPath m)"
    using assms paths_differ [of m]
    by (auto simp: save_undefined logger_log_def split: if_splits)
  ultimately show ?thesis by simp
qed

text \<open>
  The general config file cannot be written: \<^verbatim>\<open>save\<close> fails with the I/O error, and so
  does the migration, with the legacy file still in place.
\<close>

theorem migrate_save_gates_delete_witness:
  "migrateOldConfig (posix_manager [(legacy_text, legacy_config)]) legacy_config
     (empty_world\<lparr>files := [''/theme/.stencil'' \<mapsto> legacy_text],
                  unwritable := {''/theme/config.stencil.json''}\<rparr>)
   = (Inl IOFailure,
      empty_world\<lparr>files := [''/theme/.stencil'' \<mapsto> legacy_text],
                  unwritable := {''/theme/config.stencil.json''}, log := [DeprecatedDetected]\<rparr>)
   \<and> files (empty_world\<lparr>files := [''/theme/.stencil'' \<mapsto> legacy_text],
                  unwritable := {''/theme/config.stencil.json''}, log := [DeprecatedDetected]\<rparr>)
        (oldConfigPath (posix_manager [(legacy_text, legacy_config)]))
      = Some legacy_text"
proof -
  let ?m = "posix_manager [(legacy_text, legacy_config)]"
  let ?w = "empty_world\<lparr>files := [''/theme/.stencil'' \<mapsto> legacy_text],
                  unwritable := {''/theme/config.stencil.json''}\<rparr>"
  let ?w1 = "empty_world\<lparr>files := [''/theme/.stencil'' \<mapsto> legacy_text],
                  unwritable := {''/theme/config.stencil.json''}, log := [DeprecatedDetected]\<rparr>"
  have failed: "save ?m legacy_config None (logger_log DeprecatedDetected ?w) = (Inl IOFailure, ?w1)"
    by (simp add: save_undefined logger_log_def configPath_def path_join_def posix_manager_def
        empty_world_def)
  have "files ?w (oldConfigPath ?m) = Some legacy_text"
    by (simp add: oldConfigPath_def path_join_def posix_manager_def empty_world_def)
  then show ?thesis using migrate_save_gates_delete [OF failed] by simp
qed

text \<open>
  With Node's \<^verbatim>\<open>fs\<close> the hypothesis always holds: \<^verbatim>\<open>save\<close> is called without an
  environment file path, so it stops at the write of the general config file or at the
  first upsert, and the migration never reaches the deletion.
\<close>

lemma migration_stops_in_save:
  "fst (migrateOldConfig m cfg w) = Inl IOFailure \<or> fst (migrateOldConfig m cfg w) = Inl TypeError"
  "files (snd (migrateOldConfig m cfg w)) (oldConfigPath m) = files w (oldConfigPath m)"
  using paths_differ [of m]
  by (auto simp: migrateOldConfig_def save_undefined logger_log_def)

subsection \<open>The environment-file upsert\<close>

text \<open>
  C2. On the file \<^verbatim>\<open>A=1\<close>, the upsert of \<^verbatim>\<open>B\<close> with \<^verbatim>\<open>2\<close> writes \<^verbatim>\<open>B=2\<close> alone: the
  filter has dropped the non-empty line \<^verbatim>\<open>A=1\<close>. The specification's upsert keeps it
  and yields the two lines \<^verbatim>\<open>A=1\<close> and \<^verbatim>\<open>B=2\<close>.
\<close>

theorem upsert_drops_other_lines:
  "setEnvValueToFile (posix_manager []) ''B'' (Some (JStr ''2'')) (Some ''.env'')
      (empty_world\<lparr>files := [''.env'' \<mapsto> ''A=1'']\<rparr>)
   = (Inr (), empty_world\<lparr>files := [''.env'' \<mapsto> ''B=2'']\<rparr>)
   \<and> setEnvValueToFile_spec ''\<newline>'' ''B'' (Some (JStr ''2'')) ''A=1'' = ''A=1\<newline>B=2''"
  by (simp add: setEnvValueToFile_writable fixture_defs split_js_def starts_with_def or_empty_def
      setEnvValueToFile_spec_def line_matches_def)

text \<open>
  C8. The pattern does not match the line \<^verbatim>\<open># STENCIL_ACCESS_TOKEN=old\<close>, and the upsert
  of \<^verbatim>\<open>STENCIL_ACCESS_TOKEN\<close> on a file holding that line writes the new line alone: the
  commented line is gone from the file.
\<close>

theorem upsert_drops_commented_line:
  "\<not> line_matches ''STENCIL_ACCESS_TOKEN'' ''# STENCIL_ACCESS_TOKEN=old''
   \<and> setEnvValueToFile (posix_manager []) ''STENCIL_ACCESS_TOKEN'' (Some (JStr ''new''))
       (Some ''.env'') (empty_world\<lparr>files := [''.env'' \<mapsto> ''# STENCIL_ACCESS_TOKEN=old'']\<rparr>)
     = (Inr (), empty_world\<lparr>files := [''.env'' \<mapsto> ''STENCIL_ACCESS_TOKEN=new'']\<rparr>)"
  by (simp add: setEnvValueToFile_writable fixture_defs split_js_def starts_with_def or_empty_def
      line_matches_def hash_behind_def is_space_def)

text \<open>
  C7. Two upserts of the key \<^verbatim>\<open>K\<close> with a value that ends with the line separator, on a
  file that does not exist yet: the first writes an empty line, \<^verbatim>\<open>K=a\<close> and a line
  separator; the second keeps the two empty lines of that, drops \<^verbatim>\<open>K=a\<close> and writes one
  more line separator in front, so the content changes. The specification's upsert
  writes \<^verbatim>\<open>K=a\<close> and a line separator both times, and one line of it matches the key.
\<close>

theorem upsert_twice_changes_file:
  "setEnvValueToFile (posix_manager []) ''K'' (Some (JStr ''a\<newline>'')) (Some ''.env'') empty_world
   = (Inr (), empty_world\<lparr>files := [''.env'' \<mapsto> ''\<newline>K=a\<newline>'']\<rparr>)
   \<and> setEnvValueToFile (posix_manager []) ''K'' (Some (JStr ''a\<newline>'')) (Some ''.env'')
       (empty_world\<lparr>files := [''.env'' \<mapsto> ''\<newline>K=a\<newline>'']\<rparr>)
     = (Inr (), empty_world\<lparr>files := [''.env'' \<mapsto> ''\<newline>\<newline>K=a\<newline>'']\<rparr>)
   \<and> ''\<newline>\<newline>K=a\<newline>'' \<noteq> ''\<newline>K=a\<newline>''
   \<and> setEnvValueToFile_spec ''\<newline>'' ''K'' (Some (JStr ''a\<newline>'')) [] = ''K=a\<newline>''
   \<and> setEnvValueToFile_spec ''\<newline>'' ''K'' (Some (JStr ''a\<newline>'')) ''K=a\<newline>'' = ''K=a\<newline>''
   \<and> filter (line_matches ''K'') (split_js ''\<newline>'' ''K=a\<newline>'') = [''K=a'']"
  by (simp add: setEnvValueToFile_writable fixture_defs split_js_def starts_with_def or_empty_def
      setEnvValueToFile_spec_def line_matches_def hash_behind_def)

subsection \<open>\<^verbatim>\<open>save\<close> and the two upserts\<close>

text \<open>
  C1. \<^verbatim>\<open>save\<close> of a configuration with both tokens, with no environment file yet,
  succeeds and leaves an environment file of an empty line and the line
  \<^verbatim>\<open>STENCIL_GITHUB_TOKEN=gh\<close>: the line \<^verbatim>\<open>STENCIL_ACCESS_TOKEN=abc\<close> that the first upsert
  wrote is dropped by the filter of the second.
\<close>

theorem save_drops_first_upsert:
  "setEnvValueToFile (posix_manager []) ''STENCIL_ACCESS_TOKEN'' (Some (JStr ''abc'')) (Some ''.env'')
      empty_world
   = (Inr (), empty_world\<lparr>files := [''.env'' \<mapsto> ''\<newline>STENCIL_ACCESS_TOKEN=abc'']\<rparr>)
   \<and> save (posix_manager []) [(''accessToken'', JStr ''abc''), (''githubToken'', JStr ''gh'')]
      (Some ''.env'') empty_world
   = (Inr (), empty_world\<lparr>files := [''/theme/config.stencil.json'' \<mapsto> ''{}'',
                                     ''.env'' \<mapsto> ''\<newline>STENCIL_GITHUB_TOKEN=gh'']\<rparr>)"
  by (simp add: save_def splitStencilConfig_def secretFieldsSet_def assign_prop_def set_prop_def
      get_prop_def writeFile_def setEnvValueToFile_writable JSON_stringify_def fixture_defs
      split_js_def starts_with_def or_empty_def)

subsection \<open>The migration scenario\<close>

lemma split_legacy: "splitStencilConfig legacy_config = ([(''accessToken'', JStr ''abc'')], store_config)"
  by (simp add: splitStencilConfig_def legacy_config_def store_config_def secretFieldsSet_def
      assign_prop_def set_prop_def)

lemma stringify_store_config: "JSON_stringify store_config = migrated_text"
  by (simp add: JSON_stringify_def store_config_def json_quote_def json_escape_def
      migrated_text_def)

text \<open>
  C5. In the scenario (the legacy file exists, no general config file) \<^verbatim>\<open>read\<close> writes
  the general config file with the two non-secret fields and then fails with the
  TypeError of the first upsert, which was given no environment file path: the legacy
  file is not deleted, no environment file is written, the completion is not logged and
  no configuration is returned.
\<close>

theorem migration_scenario_stops:
  "read (posix_manager [(legacy_text, legacy_config)]) False False
     (empty_world\<lparr>files := [''/theme/.stencil'' \<mapsto> legacy_text]\<rparr>)
   = (Inl TypeError,
      empty_world\<lparr>files := [''/theme/.stencil'' \<mapsto> legacy_text,
                                ''/theme/config.stencil.json'' \<mapsto> migrated_text],
                   log := [DeprecatedDetected]\<rparr>)"
  by (simp add: read_def existsSync_def parseJsonFile_def migrateOldConfig_def save_undefined
      logger_log_def split_legacy stringify_store_config fixture_defs)

text \<open>So it is in every state with a legacy file, whatever it contains.\<close>

lemma read_legacy_never_returns:
  assumes "files w (oldConfigPath m) \<noteq> None"
  shows "fst (read m ignoreFileNotExists ignoreMissingFields w) = Inl IOFailure
       \<or> fst (read m ignoreFileNotExists ignoreMissingFields w) = Inl TypeError"
    and "files (snd (read m ignoreFileNotExists ignoreMissingFields w)) (oldConfigPath m)
       = files w (oldConfigPath m)"
  using assms paths_differ [of m]
  by (auto simp: read_def existsSync_def migrateOldConfig_def save_undefined logger_log_def
      Let_def)

subsection \<open>Validation\<close>

text \<open>
  C9. With \<^verbatim>\<open>ignoreMissingFields\<close> false, validation fails with the outdated-config
  error exactly when \<^verbatim>\<open>normalStoreUrl\<close> or \<^verbatim>\<open>customLayouts\<close> is absent or falsy, and it
  fails with no other error; with \<^verbatim>\<open>ignoreMissingFields\<close> true it returns a
  configuration whatever the two fields are.
\<close>

theorem validate_required_fields:
  "(fst (validateStencilConfig m cfg False w) = Inl OutdatedConfig)
     = (\<not> truthy (get_prop cfg ''normalStoreUrl'') \<or> \<not> truthy (get_prop cfg ''customLayouts''))
   \<and> (\<forall>e. fst (validateStencilConfig m cfg False w) = Inl e \<longrightarrow> e = OutdatedConfig)
   \<and> (\<exists>c. fst (validateStencilConfig m cfg True w) = Inr c)"
  by (simp add: validateStencilConfig_def)

text \<open>
  A configuration without \<^verbatim>\<open>customLayouts\<close> is rejected, and accepted when missing
  fields are ignored; a configuration with both fields is accepted.
\<close>

theorem validate_required_fields_witness:
  "fst (validateStencilConfig (posix_manager []) [(''normalStoreUrl'', JStr ''http://x'')] False
         empty_world)
     = Inl OutdatedConfig
   \<and> fst (validateStencilConfig (posix_manager []) [(''normalStoreUrl'', JStr ''http://x'')] True
         empty_world)
     = Inr [(''normalStoreUrl'', JStr ''http://x''), (''apiHost'', JStr ''https://api.bigcommerce.com'')]
   \<and> fst (validateStencilConfig (posix_manager [])
       [(''normalStoreUrl'', JStr ''http://x''), (''customLayouts'', JBool True)] False empty_world)
     = Inr [(''normalStoreUrl'', JStr ''http://x''), (''customLayouts'', JBool True),
            (''apiHost'', JStr ''https://api.bigcommerce.com'')]"
  using validate_required_fields [of "posix_manager []" "[(''normalStoreUrl'', JStr ''http://x'')]"
      empty_world]
    validate_required_fields [of "posix_manager []"
      "[(''normalStoreUrl'', JStr ''http://x''), (''customLayouts'', JBool True)]" empty_world]
  by (simp add: validateStencilConfig_def get_prop_def set_prop_def posix_manager_def)

subsection \<open>\<^verbatim>\<open>read\<close> without a legacy file\<close>

text \<open>
  C4. With no file and no environment variable, \<^verbatim>\<open>read\<close> fails with the
  outdated-config error when \<^verbatim>\<open>ignoreMissingFields\<close> is false and returns the secrets
  object with the default API host when it is true, whatever \<^verbatim>\<open>ignoreFileNotExists\<close>
  is: it neither returns \<^verbatim>\<open>null\<close> nor fails with the uninitialized-project error.
\<close>

theorem read_nothing_configured:
  "read (posix_manager []) True False empty_world = (Inl OutdatedConfig, empty_world)
   \<and> read (posix_manager []) False False empty_world = (Inl OutdatedConfig, empty_world)
   \<and> read (posix_manager []) True True empty_world
     = (Inr (Some [(''accessToken'', JNull), (''githubToken'', JNull),
                   (''apiHost'', JStr ''https://api.bigcommerce.com'')]),
        empty_world\<lparr>log := [ApiHostFallback]\<rparr>)
   \<and> read (posix_manager []) False True empty_world
     = (Inr (Some [(''accessToken'', JNull), (''githubToken'', JNull),
                   (''apiHost'', JStr ''https://api.bigcommerce.com'')]),
        empty_world\<lparr>log := [ApiHostFallback]\<rparr>)"
  by (simp add: read_def existsSync_def getSecretsConfigFromEnvVars_def env_or_null_def
      spread_def set_prop_def get_prop_def validateStencilConfig_def logger_log_def fixture_defs)

text \<open>The two last branches of \<^verbatim>\<open>read\<close> are never taken, in any state.\<close>

lemma read_never_null:
  "fst (read m ignoreFileNotExists ignoreMissingFields w) \<noteq> Inr None"
  by (auto simp: read_def Let_def split: prod.splits sum.splits if_splits)

lemma read_never_uninitialized:
  "fst (read m ignoreFileNotExists ignoreMissingFields w) \<noteq> Inl Uninitialized"
  by (auto simp: read_def Let_def migrateOldConfig_def save_undefined unlink_def
      validateStencilConfig_def parseJsonFile_def
      split: prod.splits sum.splits if_splits option.splits)

lemma get_prop_set_prop:
  "get_prop (set_prop obj k v) k' = (if k' = k then Some v else get_prop obj k')"
  by (simp add: get_prop_def set_prop_def update_conv')

lemma get_prop_spread_secrets:
  "get_prop (spread g [(''accessToken'', x), (''githubToken'', y)]) ''accessToken'' = Some x"
  "get_prop (spread g [(''accessToken'', x), (''githubToken'', y)]) ''githubToken'' = Some y"
  by (simp_all add: spread_def get_prop_set_prop)

lemma validate_keeps_props:
  assumes "validateStencilConfig m cfg i w = (Inr c, w')" and "k \<noteq> ''apiHost''"
  shows "get_prop c k = get_prop cfg k"
  using assms by (auto simp: validateStencilConfig_def get_prop_set_prop split: if_splits)

text \<open>
  C10. When there is no legacy file and \<^verbatim>\<open>read\<close> returns, it returns an object, never
  \<^verbatim>\<open>null\<close>, and in it \<^verbatim>\<open>accessToken\<close> and \<^verbatim>\<open>githubToken\<close> are \<^verbatim>\<open>null\<close> when the
  environment variable is unset or is the empty string, and the variable's value
  otherwise: never the empty string.
\<close>

theorem empty_env_var_is_null:
  assumes nolegacy: "\<not> existsSync (Some (oldConfigPath m)) w"
    and result: "read m ignoreFileNotExists ignoreMissingFields w = (Inr r, w')"
  shows "\<exists>c. r = Some c
    \<and> get_prop c ''accessToken''
        = Some (case env w ''STENCIL_ACCESS_TOKEN'' of
                  None \<Rightarrow> JNull | Some s \<Rightarrow> if s = [] then JNull else JStr s)
    \<and> get_prop c ''githubToken''
        = Some (case env w ''STENCIL_GITHUB_TOKEN'' of
                  None \<Rightarrow> JNull | Some s \<Rightarrow> if s = [] then JNull else JStr s)"
proof -
  obtain g where val: "validateStencilConfig m
        (spread g (getSecretsConfigFromEnvVars w)) ignoreMissingFields w = (Inr (the r), w')"
      and some: "r \<noteq> None"
    using result nolegacy
    by (auto simp: read_def Let_def split: if_splits sum.splits prod.splits)
  have "get_prop (the r) ''accessToken'' = Some (env_or_null w ''STENCIL_ACCESS_TOKEN'')"
    using validate_keeps_props [OF val, of "''accessToken''"]
    by (simp add: getSecretsConfigFromEnvVars_def get_prop_spread_secrets)
  moreover have "get_prop (the r) ''githubToken'' = Some (env_or_null w ''STENCIL_GITHUB_TOKEN'')"
    using validate_keeps_props [OF val, of "''githubToken''"]
    by (simp add: getSecretsConfigFromEnvVars_def get_prop_spread_secrets)
  ultimately show ?thesis using some
    by (auto simp: env_or_null_def split: option.splits)
qed

text \<open>
  \<^verbatim>\<open>STENCIL_ACCESS_TOKEN\<close> set to the empty string and \<^verbatim>\<open>STENCIL_GITHUB_TOKEN\<close> set to
  \<^verbatim>\<open>gh\<close>: the access token of the configuration read is \<^verbatim>\<open>null\<close>.
\<close>

theorem empty_env_var_is_null_witness:
  "read (posix_manager []) False True
     (empty_world\<lparr>env := [''STENCIL_ACCESS_TOKEN'' \<mapsto> [], ''STENCIL_GITHUB_TOKEN'' \<mapsto> ''gh'']\<rparr>)
   = (Inr (Some [(''accessToken'', JNull), (''githubToken'', JStr ''gh''),
                 (''apiHost'', JStr ''https://api.bigcommerce.com'')]),
      empty_world\<lparr>env := [''STENCIL_ACCESS_TOKEN'' \<mapsto> [], ''STENCIL_GITHUB_TOKEN'' \<mapsto> ''gh''],
                   log := [ApiHostFallback]\<rparr>)
   \<and> get_prop [(''accessToken'', JNull), (''githubToken'', JStr ''gh''),
                 (''apiHost'', JStr ''https://api.bigcommerce.com'')] ''accessToken'' = Some JNull"
proof -
  let ?m = "posix_manager []"
  let ?w = "empty_world\<lparr>env := [''STENCIL_ACCESS_TOKEN'' \<mapsto> [], ''STENCIL_GITHUB_TOKEN'' \<mapsto> ''gh'']\<rparr>"
  let ?c = "[(''accessToken'', JNull), (''githubToken'', JStr ''gh''),
                 (''apiHost'', JStr ''https://api.bigcommerce.com'')]"
  let ?w' = "empty_world\<lparr>env := [''STENCIL_ACCESS_TOKEN'' \<mapsto> [], ''STENCIL_GITHUB_TOKEN'' \<mapsto> ''gh''],
                   log := [ApiHostFallback]\<rparr>"
  have nolegacy: "\<not> existsSync (Some (oldConfigPath ?m)) ?w"
    by (simp add: existsSync_def fixture_defs)
  have result: "read ?m False True ?w = (Inr (Some ?c), ?w')"
    by (simp add: read_def existsSync_def getSecretsConfigFromEnvVars_def env_or_null_def
      spread_def set_prop_def get_prop_def validateStencilConfig_def logger_log_def fixture_defs)
  have "env ?w ''STENCIL_ACCESS_TOKEN'' = Some []"
    by (simp add: empty_world_def)
  then show ?thesis using empty_env_var_is_null [OF nolegacy result] result by simp
qed

text \<open>The outcome of \<^verbatim>\<open>read\<close> is the same for the empty string and for no variable.\<close>

lemma read_empty_env_like_unset:
  "fst (read m a b (w\<lparr>env := (env w)(''STENCIL_ACCESS_TOKEN'' \<mapsto> [])\<rparr>))
   = fst (read m a b (w\<lparr>env := (env w)(''STENCIL_ACCESS_TOKEN'' := None)\<rparr>))"
  "fst (read m a b (w\<lparr>env := (env w)(''STENCIL_GITHUB_TOKEN'' \<mapsto> [])\<rparr>))
   = fst (read m a b (w\<lparr>env := (env w)(''STENCIL_GITHUB_TOKEN'' := None)\<rparr>))"
  by (simp_all add: read_def existsSync_def parseJsonFile_def migrateOldConfig_def save_undefined
      logger_log_def getSecretsConfigFromEnvVars_def env_or_null_def validateStencilConfig_def
      unlink_def Let_def split: sum.splits option.splits prod.splits)

subsection \<open>\<^verbatim>\<open>save\<close>, then \<^verbatim>\<open>read\<close>\<close>

lemma split_full_config:
  "splitStencilConfig full_config
     = ([(''accessToken'', JStr ''abc''), (''githubToken'', JStr ''gh'')], general_config)"
  by (simp add: splitStencilConfig_def full_config_def general_config_def secretFieldsSet_def
      assign_prop_def set_prop_def)

text \<open>
  C3. A configuration with the two required fields, an API host and both tokens is saved
  where no file exists, and read back with no environment variable set. \<^verbatim>\<open>read\<close>
  returns the three non-secret fields as they were saved. The environment file is an
  empty line and the line \<^verbatim>\<open>STENCIL_GITHUB_TOKEN=gh\<close>: no line of it matches
  \<^verbatim>\<open>STENCIL_ACCESS_TOKEN\<close>, so the access token \<^verbatim>\<open>abc\<close> cannot be recovered from it.
  With the specification's upsert the two calls of \<^verbatim>\<open>save\<close> leave both lines.
\<close>

theorem save_then_read_loses_access_token:
  "save (posix_manager [(JSON_stringify general_config, general_config)]) full_config
      (Some ''.env'') empty_world
   = (Inr (), empty_world\<lparr>files := [''/theme/config.stencil.json'' \<mapsto> JSON_stringify general_config,
                                     ''.env'' \<mapsto> ''\<newline>STENCIL_GITHUB_TOKEN=gh'']\<rparr>)
   \<and> read (posix_manager [(JSON_stringify general_config, general_config)]) False False
       (empty_world\<lparr>files := [''/theme/config.stencil.json'' \<mapsto> JSON_stringify general_config,
                                     ''.env'' \<mapsto> ''\<newline>STENCIL_GITHUB_TOKEN=gh'']\<rparr>)
     = (Inr (Some (general_config @ [(''accessToken'', JNull), (''githubToken'', JNull)])),
        empty_world\<lparr>files := [''/theme/config.stencil.json'' \<mapsto> JSON_stringify general_config,
                                     ''.env'' \<mapsto> ''\<newline>STENCIL_GITHUB_TOKEN=gh'']\<rparr>)
   \<and> filter (line_matches ''STENCIL_ACCESS_TOKEN'')
         (split_js ''\<newline>'' ''\<newline>STENCIL_GITHUB_TOKEN=gh'') = []
   \<and> setEnvValueToFile_spec ''\<newline>'' ''STENCIL_GITHUB_TOKEN'' (Some (JStr ''gh''))
         (setEnvValueToFile_spec ''\<newline>'' ''STENCIL_ACCESS_TOKEN'' (Some (JStr ''abc'')) [])
     = ''STENCIL_ACCESS_TOKEN=abc\<newline>STENCIL_GITHUB_TOKEN=gh''"
proof -
  have saved: "save (posix_manager [(JSON_stringify general_config, general_config)]) full_config
      (Some ''.env'') empty_world
   = (Inr (), empty_world\<lparr>files := [''/theme/config.stencil.json'' \<mapsto> JSON_stringify general_config,
                                     ''.env'' \<mapsto> ''\<newline>STENCIL_GITHUB_TOKEN=gh'']\<rparr>)"
    by (simp add: save_def split_full_config get_prop_def writeFile_def setEnvValueToFile_writable
        fixture_defs split_js_def starts_with_def or_empty_def)
  have merged: "spread general_config [(''accessToken'', JNull), (''githubToken'', JNull)]
      = general_config @ [(''accessToken'', JNull), (''githubToken'', JNull)]"
    by (simp add: spread_def general_config_def set_prop_def)
  have reread: "read (posix_manager [(JSON_stringify general_config, general_config)]) False False
       (empty_world\<lparr>files := [''/theme/config.stencil.json'' \<mapsto> JSON_stringify general_config,
                                     ''.env'' \<mapsto> ''\<newline>STENCIL_GITHUB_TOKEN=gh'']\<rparr>)
     = (Inr (Some (general_config @ [(''accessToken'', JNull), (''githubToken'', JNull)])),
        empty_world\<lparr>files := [''/theme/config.stencil.json'' \<mapsto> JSON_stringify general_config,
                                     ''.env'' \<mapsto> ''\<newline>STENCIL_GITHUB_TOKEN=gh'']\<rparr>)"
    by (simp add: read_def existsSync_def parseJsonFile_def getSecretsConfigFromEnvVars_def
        env_or_null_def merged validateStencilConfig_def fixture_defs)
       (simp add: get_prop_def general_config_def)
  have nomatch: "filter (line_matches ''STENCIL_ACCESS_TOKEN'')
         (split_js ''\<newline>'' ''\<newline>STENCIL_GITHUB_TOKEN=gh'') = []"
    by (simp add: split_js_def starts_with_def line_matches_def)
  have spec: "setEnvValueToFile_spec ''\<newline>'' ''STENCIL_GITHUB_TOKEN'' (Some (JStr ''gh''))
         (setEnvValueToFile_spec ''\<newline>'' ''STENCIL_ACCESS_TOKEN'' (Some (JStr ''abc'')) [])
     = ''STENCIL_ACCESS_TOKEN=abc\<newline>STENCIL_GITHUB_TOKEN=gh''"
    by (simp add: setEnvValueToFile_spec_def split_js_def starts_with_def or_empty_def
        line_matches_def hash_behind_def)
  show ?thesis using saved reread nomatch spec by simp
qed

end
